theory Spec2Isabelle
  imports Main
begin

section \<open>Configuration (config.py)\<close>

definition ALLOWED_USERS :: "int list" where
  "ALLOWED_USERS = [123456789, 987654321]"

definition REPEAT_REMINDER_INTERVAL :: int where
  "REPEAT_REMINDER_INTERVAL = 1800"

definition MAX_REMINDER_ATTEMPTS :: int where
  "MAX_REMINDER_ATTEMPTS = 3"

definition ENABLE_REPEAT_REMINDERS :: bool where
  "ENABLE_REPEAT_REMINDERS = True"

section \<open>Dates and times\<close>

text \<open>
  An aware \<open>datetime\<close>: the fields of the local wall clock, counted in microseconds, and
  the UTC offset of its \<open>tzinfo\<close>, in microseconds. \<open>datetime.now(chicago_tz)\<close> is the
  field \<open>clock\<close> of the world below; no relation between the wall clock and the offset is
  assumed.
\<close>

record datetime =
  wall :: int
  utcoff :: int

text \<open>\<open>dt.date()\<close>, as a day number.\<close>

definition date_of :: "datetime \<Rightarrow> int" where
  "date_of dt = wall dt div 86400000000"

text \<open>The instant of an aware datetime: subtraction of aware datetimes compares these.\<close>

definition instant :: "datetime \<Rightarrow> int" where
  "instant dt = wall dt - utcoff dt"

definition hour_of :: "datetime \<Rightarrow> nat" where
  "hour_of dt = nat ((wall dt div 3600000000) mod 24)"

definition minute_of :: "datetime \<Rightarrow> nat" where
  "minute_of dt = nat ((wall dt div 60000000) mod 60)"

definition digit_char :: "nat \<Rightarrow> char" where
  "digit_char d = ''0123456789'' ! d"

definition two_digits :: "nat \<Rightarrow> string" where
  "two_digits n = [digit_char (n div 10), digit_char (n mod 10)]"

text \<open>\<open>dt.time().strftime("%H:%M")\<close>\<close>

definition strftime_HM :: "datetime \<Rightarrow> string" where
  "strftime_HM dt = two_digits (hour_of dt) @ '':'' @ two_digits (minute_of dt)"

text \<open>\<open>timedelta(seconds=n)\<close>, in microseconds.\<close>

definition timedelta_seconds :: "int \<Rightarrow> int" where
  "timedelta_seconds n = n * 1000000"

text \<open>
  \<open>dt.replace(tzinfo=chicago_tz)\<close> with a pytz zone that was not localized: the wall clock
  is kept and the offset becomes the zone's first entry, local mean time, 5 h 51 min
  behind UTC.
\<close>

definition chicago_lmt_utcoff :: int where
  "chicago_lmt_utcoff = - 21060000000"

definition replace_tzinfo_chicago :: "datetime \<Rightarrow> datetime" where
  "replace_tzinfo_chicago dt = dt\<lparr>utcoff := chicago_lmt_utcoff\<rparr>"

section \<open>Python values and exceptions\<close>

datatype error = StorageError | TypeError | ValueError | IndexError

text \<open>
  What a fetched \<open>TIMESTAMP\<close> cell can be in Python: the ISO-8601 text of a datetime
  (\<open>IsoStr\<close>, what \<open>adapt_datetime\<close> writes), or a \<open>datetime\<close> object (what the converter
  \<open>convert_datetime\<close>, registered for the declared type \<open>TIMESTAMP\<close>, makes of that text
  on a connection opened with \<open>PARSE_DECLTYPES\<close>).
\<close>

datatype pyval = IsoStr datetime | DatetimeObj datetime

definition adapt_datetime :: "datetime \<Rightarrow> pyval" where
  "adapt_datetime dt = IsoStr dt"

text \<open>\<open>datetime.fromisoformat\<close>: a \<open>str\<close> is parsed, any other argument raises TypeError.\<close>

fun fromisoformat :: "pyval \<Rightarrow> error + datetime" where
  "fromisoformat (IsoStr dt) = Inr dt"
| "fromisoformat (DatetimeObj dt) = Inl TypeError"

text \<open>\<open>convert_datetime\<close>: the stored text, parsed.\<close>

definition convert_datetime :: "pyval \<Rightarrow> error + pyval" where
  "convert_datetime s = (case fromisoformat s of Inl e \<Rightarrow> Inl e | Inr dt \<Rightarrow> Inr (DatetimeObj dt))"

section \<open>The store: three tables\<close>

text \<open>
  The columns \<open>created_at\<close> and \<open>taken_at\<close>, which no query reads, are left out.
\<close>

record vitamin =
  vit_id :: int
  vit_user_id :: int
  vit_name :: string
  vit_reminder_time :: string
  vit_is_active :: bool

record vitamin_log =
  log_id :: int
  log_vitamin_id :: int
  log_user_id :: int
  log_status :: string

text \<open>\<open>rem_last_reminder\<close> holds the datetime whose ISO text the column stores.\<close>

record active_reminder =
  rem_id :: int
  rem_vitamin_id :: int
  rem_user_id :: int
  rem_date :: int
  rem_last_reminder :: datetime
  rem_attempts :: int

section \<open>Messages and jobs\<close>

datatype body =
    ReminderText string string
  | RepeatReminderText string int int
  | NoAccessText
  | TakenOkText
  | TakenErrorText
  | DeletedOkText
  | DeleteErrorText
  | NotFoundText
  | PostponedText int
  | RepeatToggledText bool
  | NoStatisticsText
  | StatisticsText int int
  | StatisticsErrorText

datatype label = TakenLabel | PostponeLabel nat

record button =
  btn_label :: label
  callback_data :: string

record message =
  chat_id :: int
  msg_text :: body
  reply_markup :: "button list"

text \<open>The \<open>data\<close> dictionary of a postponed job, and the job with its delay in seconds.\<close>

record job_data =
  jd_user_id :: int
  jd_vitamin_id :: int
  jd_vitamin_name :: string
  jd_reminder_time :: string

record job =
  job_when :: int
  job_data :: job_data

section \<open>The world\<close>

text \<open>
  The three tables with their AUTOINCREMENT counters, the per-user settings of
  \<open>user_states["settings"]\<close>, the one-shot jobs requested by \<open>job_queue.run_once\<close>, in
  the order of the calls, the messages the bot has tried to send, the
  clock, and the schedule of storage faults: each use of the database consumes one entry,
  \<open>True\<close> makes that use raise, and an empty schedule means no fault.
\<close>

record world =
  vitamins :: "vitamin list"
  vitamin_logs :: "vitamin_log list"
  active_reminders :: "active_reminder list"
  vit_seq :: int
  log_seq :: int
  rem_seq :: int
  settings :: "int \<rightharpoonup> bool"
  jobs :: "job list"
  outbox :: "message list"
  clock :: datetime
  faults :: "bool list"

definition next_fault :: "world \<Rightarrow> bool" where
  "next_fault w = (case faults w of [] \<Rightarrow> False | f # fs \<Rightarrow> f)"

definition consume :: "world \<Rightarrow> world" where
  "consume w = w\<lparr>faults := tl (faults w)\<rparr>"

text \<open>\<open>init_database\<close> on a new file: empty tables.\<close>

definition init_world :: "datetime \<Rightarrow> bool list \<Rightarrow> world" where
  "init_world t fs = \<lparr>vitamins = [], vitamin_logs = [], active_reminders = [],
     vit_seq = 0, log_seq = 0, rem_seq = 0, settings = Map.empty, jobs = [], outbox = [],
     clock = t, faults = fs\<rparr>"

section \<open>VitaminDatabase\<close>

definition add_vitamin :: "int \<Rightarrow> string \<Rightarrow> string \<Rightarrow> world \<Rightarrow> bool \<times> world" where
  "add_vitamin user_id name reminder_time w =
     (let w1 = consume w in
      if next_fault w then (False, w1)
      else (True, w1\<lparr>vitamins := vitamins w1 @
              [\<lparr>vit_id = vit_seq w1 + 1, vit_user_id = user_id, vit_name = name,
                vit_reminder_time = reminder_time, vit_is_active = True\<rparr>],
              vit_seq := vit_seq w1 + 1\<rparr>))"

text \<open>The rows \<open>(id, name, reminder_time, is_active)\<close> of a user's active vitamins.\<close>

definition user_vitamin_rows :: "int \<Rightarrow> world \<Rightarrow> (int \<times> string \<times> string \<times> bool) list" where
  "user_vitamin_rows user_id w =
     map (\<lambda>v. (vit_id v, vit_name v, vit_reminder_time v, vit_is_active v))
       (filter (\<lambda>v. vit_user_id v = user_id \<and> vit_is_active v) (vitamins w))"

definition get_user_vitamins ::
  "int \<Rightarrow> world \<Rightarrow> (error + (int \<times> string \<times> string \<times> bool) list) \<times> world" where
  "get_user_vitamins user_id w =
     (let w1 = consume w in
      if next_fault w then (Inl StorageError, w1)
      else (Inr (user_vitamin_rows user_id w1), w1))"

text \<open>
  An \<open>int\<close> that SQLite can bind as an INTEGER: outside the signed 64-bit range
  \<open>cursor.execute\<close> raises OverflowError. The two methods below receive \<open>vitamin_id\<close> from
  the callback data, where it is any integer; the \<open>except\<close> of the method catches the
  exception like any other.
\<close>

definition sqlite_int :: "int \<Rightarrow> bool" where
  "sqlite_int i = (- 9223372036854775808 \<le> i \<and> i \<le> 9223372036854775807)"

definition reminder_today :: "int \<Rightarrow> int \<Rightarrow> int \<Rightarrow> active_reminder \<Rightarrow> bool" where
  "reminder_today vitamin_id user_id today r =
     (rem_vitamin_id r = vitamin_id \<and> rem_user_id r = user_id \<and> rem_date r = today)"

definition log_vitamin_intake :: "int \<Rightarrow> int \<Rightarrow> string \<Rightarrow> world \<Rightarrow> bool \<times> world" where
  "log_vitamin_intake vitamin_id user_id status w =
     (let w1 = consume w in
      if next_fault w \<or> \<not> sqlite_int vitamin_id \<or> \<not> sqlite_int user_id then (False, w1)
      else
        let w2 = w1\<lparr>vitamin_logs := vitamin_logs w1 @
                   [\<lparr>log_id = log_seq w1 + 1, log_vitamin_id = vitamin_id,
                     log_user_id = user_id, log_status = status\<rparr>],
                   log_seq := log_seq w1 + 1\<rparr>
        in if status = ''taken''
           then (True, w2\<lparr>active_reminders :=
                   filter (\<lambda>r. \<not> reminder_today vitamin_id user_id (date_of (clock w2)) r)
                     (active_reminders w2)\<rparr>)
           else (True, w2))"

definition add_active_reminder :: "int \<Rightarrow> int \<Rightarrow> world \<Rightarrow> bool \<times> world" where
  "add_active_reminder vitamin_id user_id w =
     (let today = date_of (clock w); w1 = consume w in
      if next_fault w then (False, w1)
      else if find (reminder_today vitamin_id user_id today) (active_reminders w1) = None
      then (True, w1\<lparr>active_reminders := active_reminders w1 @
              [\<lparr>rem_id = rem_seq w1 + 1, rem_vitamin_id = vitamin_id, rem_user_id = user_id,
                rem_date = today, rem_last_reminder = clock w1, rem_attempts = 0\<rparr>],
              rem_seq := rem_seq w1 + 1\<rparr>)
      else (True, w1))"

text \<open>
  The rows \<open>(id, vitamin_id, name, attempts, last_reminder)\<close> of the join; the
  \<open>TIMESTAMP\<close> column comes back through \<open>convert_datetime\<close>.
\<close>

definition active_reminder_rows ::
  "int \<Rightarrow> world \<Rightarrow> (int \<times> int \<times> string \<times> int \<times> pyval) list" where
  "active_reminder_rows user_id w =
     concat (map (\<lambda>r. map (\<lambda>v. (rem_id r, rem_vitamin_id r, vit_name v, rem_attempts r,
                                  DatetimeObj (rem_last_reminder r)))
                        (filter (\<lambda>v. vit_id v = rem_vitamin_id r) (vitamins w)))
              (filter (\<lambda>r. rem_user_id r = user_id \<and> rem_date r = date_of (clock w))
                 (active_reminders w)))"

definition get_active_reminders ::
  "int \<Rightarrow> world \<Rightarrow> (error + (int \<times> int \<times> string \<times> int \<times> pyval) list) \<times> world" where
  "get_active_reminders user_id w =
     (let w1 = consume w in
      if next_fault w then (Inl StorageError, w1)
      else (Inr (active_reminder_rows user_id w1), w1))"

definition update_reminder_attempt :: "int \<Rightarrow> world \<Rightarrow> bool \<times> world" where
  "update_reminder_attempt reminder_id w =
     (let w1 = consume w in
      if next_fault w then (False, w1)
      else (True, w1\<lparr>active_reminders :=
              map (\<lambda>r. if rem_id r = reminder_id
                        then r\<lparr>rem_attempts := rem_attempts r + 1,
                               rem_last_reminder := clock w1\<rparr>
                        else r)
                (active_reminders w1)\<rparr>))"

definition delete_vitamin :: "int \<Rightarrow> int \<Rightarrow> world \<Rightarrow> bool \<times> world" where
  "delete_vitamin vitamin_id user_id w =
     (let w1 = consume w in
      if next_fault w \<or> \<not> sqlite_int vitamin_id \<or> \<not> sqlite_int user_id then (False, w1)
      else (True, w1\<lparr>vitamins :=
              map (\<lambda>v. if vit_id v = vitamin_id \<and> vit_user_id v = user_id
                        then v\<lparr>vit_is_active := False\<rparr> else v)
                (vitamins w1)\<rparr>))"

section \<open>Strings\<close>

text \<open>\<open>str(i)\<close> for an int.\<close>

fun nat_digits :: "nat \<Rightarrow> string" where
  "nat_digits n =
     (if n < 10 then [digit_char n] else nat_digits (n div 10) @ [digit_char (n mod 10)])"

declare nat_digits.simps [simp del]

definition py_str_int :: "int \<Rightarrow> string" where
  "py_str_int i = (if i < 0 then CHR ''-'' # nat_digits (nat (- i)) else nat_digits (nat i))"

definition startswith :: "string \<Rightarrow> string \<Rightarrow> bool" where
  "startswith s p = (take (length p) s = p)"

text \<open>\<open>s.split(c)\<close> for a one-character separator: never empty.\<close>

fun split_on :: "char \<Rightarrow> string \<Rightarrow> string list" where
  "split_on c [] = [[]]"
| "split_on c (x # xs) =
     (let ps = split_on c xs in if x = c then [] # ps else (x # hd ps) # tl ps)"

definition py_index :: "'a list \<Rightarrow> nat \<Rightarrow> error + 'a" where
  "py_index xs i = (if i < length xs then Inr (xs ! i) else Inl IndexError)"

text \<open>The whitespace that \<open>int\<close> skips in ASCII text: tab to carriage return, and space.\<close>

definition is_space :: "char \<Rightarrow> bool" where
  "is_space c = (let n = (of_char c :: nat) in (9 \<le> n \<and> n \<le> 13) \<or> n = 32)"

definition is_digit :: "char \<Rightarrow> bool" where
  "is_digit c = (let n = (of_char c :: nat) in 48 \<le> n \<and> n \<le> 57)"

definition strip :: "string \<Rightarrow> string" where
  "strip s = rev (dropWhile is_space (rev (dropWhile is_space s)))"

definition decimal :: "string \<Rightarrow> int" where
  "decimal ds = foldl (\<lambda>a c. 10 * a + (int (of_char c) - 48)) 0 ds"

text \<open>
  \<open>int(s)\<close> on ASCII text: surrounding whitespace is dropped, one sign is allowed, and the
  rest must be decimal digits (an underscore cannot occur in a part of a string split at
  underscores), at most \<open>sys.get_int_max_str_digits()\<close> of them, 4300 by default;
  anything else raises ValueError. Text with a character outside ASCII is answered
  ValueError as well: the callback data of the bot's keyboards is ASCII.
\<close>

definition int_max_str_digits :: nat where
  "int_max_str_digits = 4300"

definition py_int :: "string \<Rightarrow> error + int" where
  "py_int s =
     (let t = strip s;
          neg = (t \<noteq> [] \<and> hd t = CHR ''-'');
          ds = (if t \<noteq> [] \<and> (hd t = CHR ''-'' \<or> hd t = CHR ''+'') then tl t else t)
      in if ds \<noteq> [] \<and> list_all is_digit ds \<and> length ds \<le> int_max_str_digits
         then Inr (if neg then - decimal ds else decimal ds)
         else Inl ValueError)"

section \<open>Handlers\<close>

definition check_user_access :: "int \<Rightarrow> bool" where
  "check_user_access user_id = (user_id \<in> set ALLOWED_USERS)"

text \<open>The inline keyboard that every reminder carries.\<close>

definition reminder_keyboard :: "int \<Rightarrow> button list" where
  "reminder_keyboard vitamin_id =
     [\<lparr>btn_label = TakenLabel, callback_data = ''taken_'' @ py_str_int vitamin_id\<rparr>,
      \<lparr>btn_label = PostponeLabel 5, callback_data = ''postpone_5_'' @ py_str_int vitamin_id\<rparr>,
      \<lparr>btn_label = PostponeLabel 10, callback_data = ''postpone_10_'' @ py_str_int vitamin_id\<rparr>,
      \<lparr>btn_label = PostponeLabel 20, callback_data = ''postpone_20_'' @ py_str_int vitamin_id\<rparr>]"

text \<open>
  \<open>context.bot.send_message\<close> inside \<open>try\<close>: the attempt is recorded; a failure of the
  delivery is logged by the source and changes nothing else.
\<close>

definition send_message :: "int \<Rightarrow> body \<Rightarrow> button list \<Rightarrow> world \<Rightarrow> world" where
  "send_message chat text markup w =
     w\<lparr>outbox := outbox w @ [\<lparr>chat_id = chat, msg_text = text, reply_markup = markup\<rparr>]\<rparr>"

definition send_postponed_reminder :: "job_data \<Rightarrow> world \<Rightarrow> world" where
  "send_postponed_reminder d w =
     send_message (jd_user_id d) (ReminderText (jd_vitamin_name d) (jd_reminder_time d))
       (reminder_keyboard (jd_vitamin_id d)) w"

text \<open>
  \<open>handle_callback\<close>: the result is the text of \<open>query.edit_message_text\<close>, if any, or the
  exception that leaves the handler. Each branch of the \<open>if\<close>/\<open>elif\<close> chain is a function
  of its own.
\<close>

definition callback_taken :: "int \<Rightarrow> string \<Rightarrow> world \<Rightarrow> (error + body option) \<times> world" where
  "callback_taken user_id data w =
     (case py_index (split_on CHR ''_'' data) 1 of Inl e \<Rightarrow> (Inl e, w) | Inr p \<Rightarrow>
      case py_int p of Inl e \<Rightarrow> (Inl e, w) | Inr vitamin_id \<Rightarrow>
        (if fst (log_vitamin_intake vitamin_id user_id ''taken'' w)
         then (Inr (Some TakenOkText), snd (log_vitamin_intake vitamin_id user_id ''taken'' w))
         else (Inr (Some TakenErrorText), snd (log_vitamin_intake vitamin_id user_id ''taken'' w))))"

definition callback_delete :: "int \<Rightarrow> string \<Rightarrow> world \<Rightarrow> (error + body option) \<times> world" where
  "callback_delete user_id data w =
     (case py_index (split_on CHR ''_'' data) 1 of Inl e \<Rightarrow> (Inl e, w) | Inr p \<Rightarrow>
      case py_int p of Inl e \<Rightarrow> (Inl e, w) | Inr vitamin_id \<Rightarrow>
        (if fst (delete_vitamin vitamin_id user_id w)
         then (Inr (Some DeletedOkText), snd (delete_vitamin vitamin_id user_id w))
         else (Inr (Some DeleteErrorText), snd (delete_vitamin vitamin_id user_id w))))"

text \<open>
  The end of the postpone branch, once \<open>delay\<close> and \<open>vitamin_id\<close> are parsed: the vitamin is
  looked up among the user's active ones, and \<open>job_queue.run_once\<close> is called only when it
  is found.
\<close>

definition schedule_postponed :: "int \<Rightarrow> int \<Rightarrow> int \<Rightarrow> world \<Rightarrow> (error + body option) \<times> world" where
  "schedule_postponed user_id delay vitamin_id w =
     (case fst (get_user_vitamins user_id w) of
        Inl e \<Rightarrow> (Inl e, snd (get_user_vitamins user_id w))
      | Inr vs \<Rightarrow>
          (case find (\<lambda>v. fst v = vitamin_id) vs of
             None \<Rightarrow> (Inr (Some NotFoundText), snd (get_user_vitamins user_id w))
           | Some v \<Rightarrow>
               (Inr (Some (PostponedText delay)),
                (snd (get_user_vitamins user_id w))
                  \<lparr>jobs := jobs (snd (get_user_vitamins user_id w)) @
                     [\<lparr>job_when = delay * 60,
                       job_data = \<lparr>jd_user_id = user_id, jd_vitamin_id = vitamin_id,
                                   jd_vitamin_name = fst (snd v),
                                   jd_reminder_time = fst (snd (snd v))\<rparr>\<rparr>]\<rparr>)))"

definition callback_postpone :: "int \<Rightarrow> string \<Rightarrow> world \<Rightarrow> (error + body option) \<times> world" where
  "callback_postpone user_id data w =
     (let parts = split_on CHR ''_'' data in
      case py_index parts 1 of Inl e \<Rightarrow> (Inl e, w) | Inr p1 \<Rightarrow>
      case py_int p1 of Inl e \<Rightarrow> (Inl e, w) | Inr delay \<Rightarrow>
      case py_index parts 2 of Inl e \<Rightarrow> (Inl e, w) | Inr p2 \<Rightarrow>
      case py_int p2 of Inl e \<Rightarrow> (Inl e, w) | Inr vitamin_id \<Rightarrow>
        schedule_postponed user_id delay vitamin_id w)"

definition callback_toggle :: "int \<Rightarrow> world \<Rightarrow> (error + body option) \<times> world" where
  "callback_toggle user_id w =
     (let cur = (case settings w user_id of None \<Rightarrow> ENABLE_REPEAT_REMINDERS | Some b \<Rightarrow> b)
      in (Inr (Some (RepeatToggledText (\<not> cur))),
          w\<lparr>settings := (settings w)(user_id \<mapsto> \<not> cur)\<rparr>))"

definition handle_callback :: "int \<Rightarrow> string \<Rightarrow> world \<Rightarrow> (error + body option) \<times> world" where
  "handle_callback user_id data w =
     (if \<not> check_user_access user_id then (Inr (Some NoAccessText), w)
      else if startswith data ''taken_'' then callback_taken user_id data w
      else if startswith data ''delete_'' then callback_delete user_id data w
      else if startswith data ''postpone_'' then callback_postpone user_id data w
      else if data = ''toggle_repeat_reminders'' then callback_toggle user_id w
      else (Inr None, w))"

text \<open>
  \<open>show_statistics\<close>: the rows of \<open>GROUP BY status\<close> (one per status of the user's log
  entries, with its count), and the text of the reply.
\<close>

definition status_counts :: "int \<Rightarrow> world \<Rightarrow> (string \<times> int) list" where
  "status_counts user_id w =
     (let ss = map log_status (filter (\<lambda>l. log_user_id l = user_id) (vitamin_logs w))
      in map (\<lambda>s. (s, int (count_list ss s))) (remdups ss))"

definition show_statistics :: "int \<Rightarrow> world \<Rightarrow> body \<times> world" where
  "show_statistics user_id w =
     (let w1 = consume w in
      if next_fault w then (StatisticsErrorText, w1)
      else
        let stats = status_counts user_id w1 in
        if stats = [] then (NoStatisticsText, w1)
        else
          let taken = (case find (\<lambda>(status, count). status = ''taken'') stats of
                         None \<Rightarrow> 0 | Some (status, count) \<Rightarrow> count)
          in (StatisticsText taken taken, w1))"

section \<open>The periodic passes\<close>

fun remind_rows :: "string \<Rightarrow> int \<Rightarrow> (int \<times> string \<times> string \<times> bool) list \<Rightarrow> world \<Rightarrow> world" where
  "remind_rows current_time_str user_id [] w = w"
| "remind_rows current_time_str user_id ((vitamin_id, name, reminder_time, is_active) # rows) w =
     (if reminder_time = current_time_str
      then let w1 = snd (add_active_reminder vitamin_id user_id w);
               w2 = send_message user_id (ReminderText name reminder_time)
                      (reminder_keyboard vitamin_id) w1
           in remind_rows current_time_str user_id rows w2
      else remind_rows current_time_str user_id rows w)"

fun remind_users :: "string \<Rightarrow> int list \<Rightarrow> world \<Rightarrow> error option \<times> world" where
  "remind_users current_time_str [] w = (None, w)"
| "remind_users current_time_str (user_id # users) w =
     (case get_user_vitamins user_id w of
        (Inl e, w1) \<Rightarrow> (Some e, w1)
      | (Inr rows, w1) \<Rightarrow>
          remind_users current_time_str users (remind_rows current_time_str user_id rows w1))"

text \<open>The Evaluator; the result is the exception that ends the pass, if any.\<close>

definition send_vitamin_reminder :: "world \<Rightarrow> error option \<times> world" where
  "send_vitamin_reminder w = remind_users (strftime_HM (clock w)) ALLOWED_USERS w"

fun repeat_rows ::
  "int \<Rightarrow> (int \<times> int \<times> string \<times> int \<times> pyval) list \<Rightarrow> world \<Rightarrow> error option \<times> world" where
  "repeat_rows user_id [] w = (None, w)"
| "repeat_rows user_id ((reminder_id, vitamin_id, vitamin_name, attempts, last_reminder) # rows) w =
     (case fromisoformat last_reminder of
        Inl e \<Rightarrow> (Some e, w)
      | Inr parsed \<Rightarrow>
          let last_time = replace_tzinfo_chicago parsed;
              current_time = clock w
          in if instant current_time - instant last_time
                  \<ge> timedelta_seconds REPEAT_REMINDER_INTERVAL
                \<and> attempts < MAX_REMINDER_ATTEMPTS
             then let w1 = snd (update_reminder_attempt reminder_id w);
                      w2 = send_message user_id
                             (RepeatReminderText vitamin_name (attempts + 1) MAX_REMINDER_ATTEMPTS)
                             (reminder_keyboard vitamin_id) w1
                  in repeat_rows user_id rows w2
             else repeat_rows user_id rows w)"

fun repeat_users :: "int list \<Rightarrow> world \<Rightarrow> error option \<times> world" where
  "repeat_users [] w = (None, w)"
| "repeat_users (user_id # users) w =
     (if \<not> (case settings w user_id of None \<Rightarrow> ENABLE_REPEAT_REMINDERS | Some b \<Rightarrow> b)
      then repeat_users users w
      else case get_active_reminders user_id w of
             (Inl e, w1) \<Rightarrow> (Some e, w1)
           | (Inr rows, w1) \<Rightarrow>
               (case repeat_rows user_id rows w1 of
                  (Some e, w2) \<Rightarrow> (Some e, w2)
                | (None, w2) \<Rightarrow> repeat_users users w2))"

text \<open>The Escalation Engine.\<close>

definition send_repeat_reminders :: "world \<Rightarrow> error option \<times> world" where
  "send_repeat_reminders w = repeat_users ALLOWED_USERS w"


section \<open>Properties: definitions\<close>

text \<open>The key of a reminder record: item, owner and date.\<close>

definition rem_key :: "active_reminder \<Rightarrow> int \<times> int \<times> int" where
  "rem_key r = (rem_vitamin_id r, rem_user_id r, rem_date r)"

definition unique_reminders :: "world \<Rightarrow> bool" where
  "unique_reminders w = distinct (map rem_key (active_reminders w))"

text \<open>
  The notification that the Evaluator sends for a row of \<open>get_user_vitamins\<close>, the rows
  that are due at a time string, and the notifications of one pass.
\<close>

definition reminder_message :: "int \<Rightarrow> int \<times> string \<times> string \<times> bool \<Rightarrow> message" where
  "reminder_message u row =
     (case row of (i, n, t, a) \<Rightarrow>
        \<lparr>chat_id = u, msg_text = ReminderText n t, reply_markup = reminder_keyboard i\<rparr>)"

definition due_rows ::
  "string \<Rightarrow> (int \<times> string \<times> string \<times> bool) list \<Rightarrow> (int \<times> string \<times> string \<times> bool) list" where
  "due_rows cur rows = filter (\<lambda>row. fst (snd (snd row)) = cur) rows"

definition due_notifications :: "world \<Rightarrow> message list" where
  "due_notifications w =
     concat (map (\<lambda>u. map (reminder_message u)
                         (due_rows (strftime_HM (clock w)) (user_vitamin_rows u w)))
               ALLOWED_USERS)"

text \<open>
  The worlds that the program can reach from an empty database: the store's methods, the
  two passes, the handlers and the postponed jobs, with any clock reading and any schedule
  of storage faults in between, and restarts of the process.
\<close>

inductive reachable :: "world \<Rightarrow> bool" where
  start: "reachable (init_world t fs)"
| environment: "reachable w \<Longrightarrow> reachable (w\<lparr>clock := t, faults := fs\<rparr>)"
| restart: "reachable w \<Longrightarrow> reachable (w\<lparr>settings := Map.empty, jobs := []\<rparr>)"
| op_add_vitamin: "reachable w \<Longrightarrow> reachable (snd (add_vitamin u n t w))"
| op_log_vitamin_intake: "reachable w \<Longrightarrow> reachable (snd (log_vitamin_intake v u s w))"
| op_add_active_reminder: "reachable w \<Longrightarrow> reachable (snd (add_active_reminder v u w))"
| op_update_reminder_attempt: "reachable w \<Longrightarrow> reachable (snd (update_reminder_attempt i w))"
| op_delete_vitamin: "reachable w \<Longrightarrow> reachable (snd (delete_vitamin v u w))"
| op_get_user_vitamins: "reachable w \<Longrightarrow> reachable (snd (get_user_vitamins u w))"
| op_get_active_reminders: "reachable w \<Longrightarrow> reachable (snd (get_active_reminders u w))"
| evaluator: "reachable w \<Longrightarrow> reachable (snd (send_vitamin_reminder w))"
| escalation: "reachable w \<Longrightarrow> reachable (snd (send_repeat_reminders w))"
| callback: "reachable w \<Longrightarrow> reachable (snd (handle_callback u d w))"
| statistics: "reachable w \<Longrightarrow> reachable (snd (show_statistics u w))"
| postponed: "reachable w \<Longrightarrow> j \<in> set (jobs w) \<Longrightarrow>
     reachable (send_postponed_reminder (job_data j) (w\<lparr>jobs := remove1 j (jobs w)\<rparr>))"

text \<open>
  Examples: user 123456789 has the vitamin D at 09:00; \<open>ex_raised\<close> is the world after
  the Evaluator pass of 09:00, \<open>ex_taken\<close> the one after the user's acknowledgment.
\<close>

definition ex_0900 :: datetime where
  "ex_0900 = \<lparr>wall = 32400000000, utcoff = - 21600000000\<rparr>"

definition ex_0930 :: datetime where
  "ex_0930 = \<lparr>wall = 34200000000, utcoff = - 21600000000\<rparr>"

definition ex_world :: world where
  "ex_world = snd (add_vitamin 123456789 ''D'' ''09:00'' (init_world ex_0900 []))"

definition ex_raised :: world where
  "ex_raised = snd (send_vitamin_reminder ex_world)"


section \<open>Frame lemmas\<close>

text \<open>
  What \<open>get_active_reminders\<close> fetches from the \<open>TIMESTAMP\<close> column: the text that
  \<open>adapt_datetime\<close> stored, parsed by \<open>convert_datetime\<close> into a datetime object.
\<close>

lemma fetched_timestamp: "convert_datetime (adapt_datetime dt) = Inr (DatetimeObj dt)"
  by (simp add: convert_datetime_def adapt_datetime_def)

lemma consume_fields [simp]:
  "vitamins (consume w) = vitamins w"
  "vitamin_logs (consume w) = vitamin_logs w"
  "active_reminders (consume w) = active_reminders w"
  "vit_seq (consume w) = vit_seq w"
  "log_seq (consume w) = log_seq w"
  "rem_seq (consume w) = rem_seq w"
  "settings (consume w) = settings w"
  "jobs (consume w) = jobs w"
  "outbox (consume w) = outbox w"
  "clock (consume w) = clock w"
  "faults (consume w) = tl (faults w)"
  by (simp_all add: consume_def)

lemma user_vitamin_rows_cong:
  "vitamins w' = vitamins w \<Longrightarrow> user_vitamin_rows u w' = user_vitamin_rows u w"
  by (simp add: user_vitamin_rows_def)

lemma user_vitamin_rows_consume:
  "user_vitamin_rows u' (consume w) = user_vitamin_rows u' w"
  by (rule user_vitamin_rows_cong) simp

lemma send_message_fields [simp]:
  "vitamins (send_message c t m w) = vitamins w"
  "vitamin_logs (send_message c t m w) = vitamin_logs w"
  "active_reminders (send_message c t m w) = active_reminders w"
  "settings (send_message c t m w) = settings w"
  "jobs (send_message c t m w) = jobs w"
  "clock (send_message c t m w) = clock w"
  "faults (send_message c t m w) = faults w"
  "outbox (send_message c t m w) =
     outbox w @ [\<lparr>chat_id = c, msg_text = t, reply_markup = m\<rparr>]"
  by (simp_all add: send_message_def)

lemma find_reminder_None:
  "(find (reminder_today v u d) rs = None) = (\<forall>r\<in>set rs. \<not> reminder_today v u d r)"
  by (auto simp add: find_None_iff)

lemma add_active_reminder_result:
  "add_active_reminder vitamin_id user_id w =
     (\<not> next_fault w,
      if \<not> next_fault w \<and>
         (\<forall>r\<in>set (active_reminders w). \<not> reminder_today vitamin_id user_id (date_of (clock w)) r)
      then (consume w)\<lparr>active_reminders := active_reminders w @
              [\<lparr>rem_id = rem_seq w + 1, rem_vitamin_id = vitamin_id, rem_user_id = user_id,
                rem_date = date_of (clock w), rem_last_reminder = clock w, rem_attempts = 0\<rparr>],
              rem_seq := rem_seq w + 1\<rparr>
      else consume w)"
  by (simp add: add_active_reminder_def Let_def find_reminder_None)

lemma add_active_reminder_fields [simp]:
  "vitamins (snd (add_active_reminder v u w)) = vitamins w"
  "vitamin_logs (snd (add_active_reminder v u w)) = vitamin_logs w"
  "settings (snd (add_active_reminder v u w)) = settings w"
  "jobs (snd (add_active_reminder v u w)) = jobs w"
  "outbox (snd (add_active_reminder v u w)) = outbox w"
  "clock (snd (add_active_reminder v u w)) = clock w"
  "faults (snd (add_active_reminder v u w)) = tl (faults w)"
  by (simp_all add: add_active_reminder_result)

lemma update_reminder_attempt_fields [simp]:
  "vitamins (snd (update_reminder_attempt i w)) = vitamins w"
  "vitamin_logs (snd (update_reminder_attempt i w)) = vitamin_logs w"
  "settings (snd (update_reminder_attempt i w)) = settings w"
  "jobs (snd (update_reminder_attempt i w)) = jobs w"
  "outbox (snd (update_reminder_attempt i w)) = outbox w"
  "clock (snd (update_reminder_attempt i w)) = clock w"
  "faults (snd (update_reminder_attempt i w)) = tl (faults w)"
  by (simp_all add: update_reminder_attempt_def Let_def)

lemma no_faults: "faults w = [] \<Longrightarrow> \<not> next_fault w"
  by (simp add: next_fault_def)

section \<open>The example worlds\<close>

lemma strftime_0900: "strftime_HM ex_0900 = ''09:00''"
  by (simp add: strftime_HM_def ex_0900_def two_digits_def hour_of_def minute_of_def digit_char_def)

lemma ex_world_eq:
  "ex_world = \<lparr>vitamins = [\<lparr>vit_id = 1, vit_user_id = 123456789, vit_name = ''D'',
        vit_reminder_time = ''09:00'', vit_is_active = True\<rparr>],
     vitamin_logs = [], active_reminders = [],
     vit_seq = 1, log_seq = 0, rem_seq = 0, settings = Map.empty, jobs = [], outbox = [],
     clock = ex_0900, faults = []\<rparr>"
  by (simp add: ex_world_def add_vitamin_def init_world_def next_fault_def consume_def Let_def)

lemma ex_raised_eq:
  "ex_raised = \<lparr>vitamins = [\<lparr>vit_id = 1, vit_user_id = 123456789, vit_name = ''D'',
        vit_reminder_time = ''09:00'', vit_is_active = True\<rparr>],
     vitamin_logs = [],
     active_reminders = [\<lparr>rem_id = 1, rem_vitamin_id = 1, rem_user_id = 123456789,
        rem_date = 0, rem_last_reminder = ex_0900, rem_attempts = 0\<rparr>],
     vit_seq = 1, log_seq = 0, rem_seq = 1, settings = Map.empty, jobs = [],
     outbox = [\<lparr>chat_id = 123456789, msg_text = ReminderText ''D'' ''09:00'',
        reply_markup = reminder_keyboard 1\<rparr>],
     clock = ex_0900, faults = []\<rparr>"
  by (simp add: ex_raised_def ex_world_eq send_vitamin_reminder_def ALLOWED_USERS_def
        strftime_0900 get_user_vitamins_def user_vitamin_rows_def next_fault_def consume_def
        Let_def add_active_reminder_def reminder_today_def send_message_def)
     (simp add: date_of_def ex_0900_def)

lemma ex_user_rows: "user_vitamin_rows 123456789 ex_world = [(1, ''D'', ''09:00'', True)]"
  by (simp add: ex_world_eq user_vitamin_rows_def)

lemma ex_allowed: "check_user_access 123456789"
  by (simp add: check_user_access_def ALLOWED_USERS_def)

lemma ex_world_no_fault: "\<not> next_fault ex_world"
  by (simp add: ex_world_eq next_fault_def)

lemma ex_raised_no_fault: "\<not> next_fault ex_raised"
  by (simp add: ex_raised_eq next_fault_def)

lemma ex_raised_second_pass:
  "send_vitamin_reminder ex_raised =
     (None, ex_raised\<lparr>outbox := outbox ex_raised @
        [\<lparr>chat_id = 123456789, msg_text = ReminderText ''D'' ''09:00'',
          reply_markup = reminder_keyboard 1\<rparr>]\<rparr>)"
  by (simp add: ex_raised_eq send_vitamin_reminder_def ALLOWED_USERS_def
        strftime_0900 get_user_vitamins_def user_vitamin_rows_def next_fault_def consume_def
        Let_def add_active_reminder_def reminder_today_def send_message_def)
     (simp add: date_of_def ex_0900_def)

section \<open>The store\<close>

text \<open>
  C2, as the code has it. \<open>add_active_reminder\<close> returns \<open>True\<close> exactly when the
  storage call did not fail, whether or not a record was created; it appends a record for
  (item, owner, today), with zero attempts, exactly when the call did not fail and no record
  with that key existed.
\<close>

theorem add_active_reminder_reports_success:
  "fst (add_active_reminder vitamin_id user_id w) = (\<not> next_fault w) \<and>
   active_reminders (snd (add_active_reminder vitamin_id user_id w)) =
     (if \<not> next_fault w \<and>
         (\<forall>r\<in>set (active_reminders w). \<not> reminder_today vitamin_id user_id (date_of (clock w)) r)
      then active_reminders w @
              [\<lparr>rem_id = rem_seq w + 1, rem_vitamin_id = vitamin_id, rem_user_id = user_id,
                rem_date = date_of (clock w), rem_last_reminder = clock w, rem_attempts = 0\<rparr>]
      else active_reminders w)"
  by (simp add: add_active_reminder_result)

text \<open>
  C2 as stated fails: in \<open>ex_raised\<close> the record exists, nothing is created, and the
  result is \<open>True\<close>.
\<close>

theorem add_active_reminder_true_without_creating:
  "find (reminder_today 1 123456789 (date_of (clock ex_raised))) (active_reminders ex_raised) \<noteq> None \<and>
   fst (add_active_reminder 1 123456789 ex_raised) = True \<and>
   active_reminders (snd (add_active_reminder 1 123456789 ex_raised)) = active_reminders ex_raised"
  by (simp add: add_active_reminder_def Let_def ex_raised_no_fault)
     (simp add: ex_raised_eq reminder_today_def date_of_def ex_0900_def)

text \<open>
  The theorem of C2 at \<open>ex_world\<close>, where no record exists yet.
\<close>

theorem add_active_reminder_reports_success_witness:
  "fst (add_active_reminder 1 123456789 ex_world) = True \<and>
   active_reminders (snd (add_active_reminder 1 123456789 ex_world)) =
     [\<lparr>rem_id = 1, rem_vitamin_id = 1, rem_user_id = 123456789, rem_date = 0,
       rem_last_reminder = ex_0900, rem_attempts = 0\<rparr>]"
  using add_active_reminder_reports_success[of 1 123456789 ex_world] ex_world_no_fault
  by (simp add: ex_world_eq date_of_def) (simp add: ex_0900_def)

text \<open>
  C8, as the code has it. \<open>add_vitamin\<close> returns a boolean: \<open>True\<close> after inserting
  the row under the next id, \<open>False\<close> when the storage call fails, in which case the
  exception is caught and the tables are unchanged.
\<close>

theorem add_vitamin_reports_success:
  "add_vitamin user_id name reminder_time w =
     (if next_fault w then (False, consume w)
      else (True, (consume w)\<lparr>vitamins := vitamins w @
              [\<lparr>vit_id = vit_seq w + 1, vit_user_id = user_id, vit_name = name,
                vit_reminder_time = reminder_time, vit_is_active = True\<rparr>],
              vit_seq := vit_seq w + 1\<rparr>))"
  by (simp add: add_vitamin_def Let_def)

text \<open>
  C8 as stated fails: the second insertion returns \<open>True\<close>, which is not the new
  id 2 even read as a number; and with a storage fault the call returns \<open>False\<close> instead
  of raising.
\<close>

theorem add_vitamin_true_is_not_the_id:
  "fst (add_vitamin 123456789 ''C'' ''10:00'' ex_world) = True \<and>
   vit_id (last (vitamins (snd (add_vitamin 123456789 ''C'' ''10:00'' ex_world)))) = 2 \<and>
   (of_bool (fst (add_vitamin 123456789 ''C'' ''10:00'' ex_world)) :: int) \<noteq> 2 \<and>
   fst (add_vitamin 123456789 ''C'' ''10:00'' (ex_world\<lparr>faults := [True]\<rparr>)) = False \<and>
   vitamins (snd (add_vitamin 123456789 ''C'' ''10:00'' (ex_world\<lparr>faults := [True]\<rparr>))) =
     vitamins ex_world"
  by (simp add: add_vitamin_def Let_def next_fault_def ex_world_eq consume_def)

text \<open>
  The theorem of C8 at \<open>ex_world\<close>.
\<close>

theorem add_vitamin_reports_success_witness:
  "\<not> next_fault ex_world \<and>
   fst (add_vitamin 123456789 ''C'' ''10:00'' ex_world) = True \<and>
   map vit_id (vitamins (snd (add_vitamin 123456789 ''C'' ''10:00'' ex_world))) = [1, 2]"
  using add_vitamin_reports_success[of 123456789 "''C''" "''10:00''" ex_world] ex_world_no_fault
  by (simp add: ex_world_eq)

lemma ex_ids: "sqlite_int 1" "sqlite_int 7" "sqlite_int 123456789"
  by (simp_all add: sqlite_int_def)

text \<open>
  C4, as the code has it. \<open>log_vitamin_intake\<close> is one transaction. It succeeds exactly
  when the storage call does not fail and both ids fit an SQLite INTEGER. When it fails
  nothing changes and the result is \<open>False\<close>. When it succeeds it appends exactly one log
  entry and, for the status \<open>taken\<close>, removes the records of (item, owner, today) and no
  other; when no such record exists the reminder table is unchanged. The other tables, the
  settings, the jobs and the outbox are untouched.
\<close>

theorem log_vitamin_intake_appends_and_clears:
  "log_vitamin_intake vitamin_id user_id status w = (ok, w') \<Longrightarrow>
   ok = (\<not> next_fault w \<and> sqlite_int vitamin_id \<and> sqlite_int user_id) \<and>
   (\<not> ok \<longrightarrow> w' = consume w) \<and>
   (ok \<longrightarrow>
      vitamin_logs w' = vitamin_logs w @
        [\<lparr>log_id = log_seq w + 1, log_vitamin_id = vitamin_id, log_user_id = user_id,
          log_status = status\<rparr>] \<and>
      active_reminders w' =
        (if status = ''taken''
         then filter (\<lambda>r. \<not> reminder_today vitamin_id user_id (date_of (clock w)) r)
                (active_reminders w)
         else active_reminders w) \<and>
      ((\<forall>r\<in>set (active_reminders w). \<not> reminder_today vitamin_id user_id (date_of (clock w)) r)
         \<longrightarrow> active_reminders w' = active_reminders w) \<and>
      vitamins w' = vitamins w \<and> settings w' = settings w \<and> jobs w' = jobs w \<and>
      outbox w' = outbox w)"
  by (auto simp add: log_vitamin_intake_def Let_def filter_id_conv split: if_splits)

text \<open>
  C4 as stated fails: with no storage fault, acknowledging the item id \<open>2^63\<close> (callback
  data \<open>taken_9223372036854775808\<close>) returns \<open>False\<close> and appends no log entry.
\<close>

theorem log_vitamin_intake_rejects_large_id:
  "\<not> next_fault ex_raised \<and>
   fst (log_vitamin_intake 9223372036854775808 123456789 ''taken'' ex_raised) = False \<and>
   vitamin_logs (snd (log_vitamin_intake 9223372036854775808 123456789 ''taken'' ex_raised)) =
     vitamin_logs ex_raised"
  by (simp add: log_vitamin_intake_def Let_def sqlite_int_def ex_raised_no_fault)

text \<open>
  The theorem of C4 at \<open>ex_raised\<close>: acknowledging item 1.
\<close>

theorem log_vitamin_intake_appends_and_clears_witness:
  "\<not> next_fault ex_raised \<and> sqlite_int 1 \<and> sqlite_int 123456789 \<and>
   fst (log_vitamin_intake 1 123456789 ''taken'' ex_raised) \<and>
   vitamin_logs (snd (log_vitamin_intake 1 123456789 ''taken'' ex_raised)) =
     [\<lparr>log_id = 1, log_vitamin_id = 1, log_user_id = 123456789, log_status = ''taken''\<rparr>] \<and>
   active_reminders (snd (log_vitamin_intake 1 123456789 ''taken'' ex_raised)) = []"
proof -
  have e: "log_vitamin_intake 1 123456789 ''taken'' ex_raised =
        (fst (log_vitamin_intake 1 123456789 ''taken'' ex_raised),
         snd (log_vitamin_intake 1 123456789 ''taken'' ex_raised))" by simp
  have f: "filter (\<lambda>r. \<not> reminder_today 1 123456789 (date_of (clock ex_raised)) r)
             (active_reminders ex_raised) = []"
    by (simp add: ex_raised_eq reminder_today_def date_of_def ex_0900_def)
  have l: "vitamin_logs ex_raised = []" "log_seq ex_raised = 0" by (simp_all add: ex_raised_eq)
  from log_vitamin_intake_appends_and_clears[OF e] ex_raised_no_fault ex_ids
  show ?thesis by (simp add: f l)
qed

lemma delete_vitamin_result:
  "delete_vitamin vitamin_id user_id w =
     (\<not> next_fault w \<and> sqlite_int vitamin_id \<and> sqlite_int user_id,
      if next_fault w \<or> \<not> sqlite_int vitamin_id \<or> \<not> sqlite_int user_id then consume w
      else (consume w)\<lparr>vitamins :=
              map (\<lambda>v. if vit_id v = vitamin_id \<and> vit_user_id v = user_id
                        then v\<lparr>vit_is_active := False\<rparr> else v)
                (vitamins w)\<rparr>)"
  by (simp add: delete_vitamin_def Let_def)

lemma deactivated_not_listed:
  "vitamin_id \<notin> fst ` set (user_vitamin_rows user_id
      (w\<lparr>vitamins := map (\<lambda>v. if vit_id v = vitamin_id \<and> vit_user_id v = user_id
                        then v\<lparr>vit_is_active := False\<rparr> else v) vs\<rparr>))"
  by (induction vs) (auto simp add: user_vitamin_rows_def)

lemma deactivate_no_match:
  assumes "\<forall>v\<in>set vs. \<not> (vit_id v = vitamin_id \<and> vit_user_id v = user_id)"
  shows "map (\<lambda>v. if vit_id v = vitamin_id \<and> vit_user_id v = user_id
             then v\<lparr>vit_is_active := False\<rparr> else v) vs = vs"
proof (rule map_idI)
  fix v assume "v \<in> set vs"
  with assms have "\<not> (vit_id v = vitamin_id \<and> vit_user_id v = user_id)" by blast
  then show "(if vit_id v = vitamin_id \<and> vit_user_id v = user_id
             then v\<lparr>vit_is_active := False\<rparr> else v) = v" by (simp only: if_False)
qed

text \<open>
  C9, as the code has it. \<open>delete_vitamin\<close> returns \<open>True\<close> exactly when the storage
  call does not fail and both ids fit an SQLite INTEGER, whether or not a row matches;
  otherwise it returns \<open>False\<close> and changes nothing. After a success \<open>get_user_vitamins\<close>
  of that user does not list the id, and when no row matches the vitamins table is
  unchanged. In every case the log table, the statistics rows of every user and the
  reminder table are unchanged.
\<close>

theorem delete_vitamin_idempotent_and_frame:
  assumes "delete_vitamin vitamin_id user_id w = (ok, w')"
  shows "ok = (\<not> next_fault w \<and> sqlite_int vitamin_id \<and> sqlite_int user_id) \<and>
   (\<not> ok \<longrightarrow> w' = consume w) \<and>
   (ok \<longrightarrow>
      (\<forall>rows. fst (get_user_vitamins user_id w') = Inr rows \<longrightarrow> vitamin_id \<notin> fst ` set rows) \<and>
      ((\<forall>v\<in>set (vitamins w). \<not> (vit_id v = vitamin_id \<and> vit_user_id v = user_id))
         \<longrightarrow> vitamins w' = vitamins w)) \<and>
   vitamin_logs w' = vitamin_logs w \<and>
   (\<forall>u. status_counts u w' = status_counts u w) \<and>
   active_reminders w' = active_reminders w"
proof -
  let ?f = "\<lambda>v. if vit_id v = vitamin_id \<and> vit_user_id v = user_id
                 then v\<lparr>vit_is_active := False\<rparr> else v"
  from assms have ok: "ok = (\<not> next_fault w \<and> sqlite_int vitamin_id \<and> sqlite_int user_id)"
    by (simp add: delete_vitamin_result)
  from assms ok have bad: "\<not> ok \<longrightarrow> w' = consume w"
    by (auto simp add: delete_vitamin_result)
  from assms ok have good: "ok \<longrightarrow> w' = (consume w)\<lparr>vitamins := map ?f (vitamins w)\<rparr>"
    by (auto simp add: delete_vitamin_result)
  have 1: "\<forall>rows. fst (get_user_vitamins user_id w') = Inr rows
      \<longrightarrow> vitamin_id \<notin> fst ` set rows" if "ok"
  proof -
    from that good have w': "w' = (consume w)\<lparr>vitamins := map ?f (vitamins w)\<rparr>" by blast
    have listed: "vitamin_id \<notin> fst ` set (user_vitamin_rows user_id w')"
      unfolding w' by (rule deactivated_not_listed)
    have "user_vitamin_rows user_id (consume w') = user_vitamin_rows user_id w'"
      by (rule user_vitamin_rows_cong) simp
    with listed show ?thesis
      by (auto simp add: get_user_vitamins_def Let_def split: if_splits)
  qed
  have 2: "(\<forall>v\<in>set (vitamins w). \<not> (vit_id v = vitamin_id \<and> vit_user_id v = user_id))
      \<longrightarrow> vitamins w' = vitamins w" if "ok"
    using that good by (simp add: deactivate_no_match)
  have 3: "vitamin_logs w' = vitamin_logs w" "active_reminders w' = active_reminders w"
    using bad good by (cases ok; simp)+
  have 4: "\<forall>u. status_counts u w' = status_counts u w"
    by (simp add: status_counts_def 3)
  from ok bad 1 2 3 4 show ?thesis by blast
qed

text \<open>
  C9 as stated fails: with no storage fault and no matching row, deleting the item id
  \<open>2^63\<close> (callback data \<open>delete_9223372036854775808\<close>) returns \<open>False\<close>.
\<close>

theorem delete_vitamin_fails_on_large_id:
  "\<not> next_fault ex_world \<and>
   map vit_id (vitamins ex_world) = [1] \<and>
   fst (delete_vitamin 9223372036854775808 123456789 ex_world) = False"
  by (simp add: delete_vitamin_result sqlite_int_def ex_world_no_fault) (simp add: ex_world_eq)

text \<open>
  The theorem of C9 at \<open>ex_world\<close>: for the id 7, which no row has, and for the id 1.
\<close>

theorem delete_vitamin_idempotent_and_frame_witness:
  "\<not> next_fault ex_world \<and> sqlite_int 7 \<and> sqlite_int 1 \<and> sqlite_int 123456789 \<and>
   fst (delete_vitamin 7 123456789 ex_world) \<and>
   vitamins (snd (delete_vitamin 7 123456789 ex_world)) = vitamins ex_world \<and>
   fst (delete_vitamin 1 123456789 ex_world) \<and>
   1 \<notin> fst ` set (user_vitamin_rows 123456789 (snd (delete_vitamin 1 123456789 ex_world)))"
proof -
  have e: "delete_vitamin v 123456789 ex_world =
        (fst (delete_vitamin v 123456789 ex_world), snd (delete_vitamin v 123456789 ex_world))"
    for v by simp
  have n: "\<forall>v\<in>set (vitamins ex_world). \<not> (vit_id v = 7 \<and> vit_user_id v = 123456789)"
    by (simp add: ex_world_eq)
  let ?w = "snd (delete_vitamin 1 123456789 ex_world)"
  have g: "fst (get_user_vitamins 123456789 ?w) = Inr (user_vitamin_rows 123456789 ?w)"
    by (simp add: get_user_vitamins_def Let_def delete_vitamin_result ex_world_no_fault ex_ids
          user_vitamin_rows_consume)
       (simp add: next_fault_def ex_world_eq consume_def)
  from delete_vitamin_idempotent_and_frame[OF e[of 7]]
    delete_vitamin_idempotent_and_frame[OF e[of 1]] n g
  show ?thesis using ex_world_no_fault ex_ids by blast
qed

section \<open>Statistics\<close>









section \<open>At most one reminder per item, owner and date\<close>

lemma unique_add_active_reminder:
  "unique_reminders w \<Longrightarrow> unique_reminders (snd (add_active_reminder v u w))"
  by (auto simp add: add_active_reminder_result unique_reminders_def rem_key_def
        reminder_today_def)

lemma rem_key_bump:
  "rem_key (if rem_id r = i
            then r\<lparr>rem_attempts := rem_attempts r + 1, rem_last_reminder := t\<rparr> else r)
   = rem_key r"
  by (simp add: rem_key_def)

lemma unique_update_reminder_attempt:
  "unique_reminders w \<Longrightarrow> unique_reminders (snd (update_reminder_attempt i w))"
  by (simp add: update_reminder_attempt_def Let_def unique_reminders_def comp_def rem_key_bump)

lemma unique_log_vitamin_intake:
  "unique_reminders w \<Longrightarrow> unique_reminders (snd (log_vitamin_intake v u s w))"
  by (simp add: log_vitamin_intake_def Let_def unique_reminders_def distinct_map_filter)

lemma unique_add_vitamin:
  "unique_reminders w \<Longrightarrow> unique_reminders (snd (add_vitamin u n t w))"
  by (simp add: add_vitamin_def Let_def unique_reminders_def)

lemma unique_delete_vitamin:
  "unique_reminders w \<Longrightarrow> unique_reminders (snd (delete_vitamin v u w))"
  by (simp add: delete_vitamin_def Let_def unique_reminders_def)

lemma unique_remind_rows:
  "unique_reminders w \<Longrightarrow> unique_reminders (remind_rows c u rows w)"
proof (induction rows arbitrary: w)
  case Nil
  then show ?case by simp
next
  case (Cons row rows)
  obtain i n t a where row: "row = (i, n, t, a)" by (cases row) auto
  show ?case
  proof (cases "t = c")
    case True
    have "unique_reminders (send_message u (ReminderText n c) (reminder_keyboard i)
            (snd (add_active_reminder i u w)))"
      using unique_add_active_reminder[OF Cons.prems, of i u]
      by (simp add: unique_reminders_def)
    then show ?thesis using Cons.IH True by (simp add: row Let_def)
  next
    case False
    then show ?thesis using Cons by (simp add: row)
  qed
qed

lemma unique_remind_users:
  "unique_reminders w \<Longrightarrow> unique_reminders (snd (remind_users c us w))"
proof (induction us arbitrary: w)
  case Nil
  then show ?case by simp
next
  case (Cons u us)
  have "unique_reminders (consume w)" using Cons.prems by (simp add: unique_reminders_def)
  then show ?case
    using Cons.IH unique_remind_rows
    by (simp add: get_user_vitamins_def Let_def)
qed

lemma unique_repeat_rows:
  "unique_reminders w \<Longrightarrow> unique_reminders (snd (repeat_rows u rows w))"
proof (induction rows arbitrary: w)
  case Nil
  then show ?case by simp
next
  case (Cons row rows)
  obtain i v n a l where row: "row = (i, v, n, a, l)" by (cases row) auto
  have "unique_reminders (send_message u (RepeatReminderText n (a + 1) MAX_REMINDER_ATTEMPTS)
          (reminder_keyboard v) (snd (update_reminder_attempt i w)))"
    using unique_update_reminder_attempt[OF Cons.prems, of i]
    by (simp add: unique_reminders_def)
  then show ?case using Cons by (simp add: row Let_def split: sum.splits)
qed

lemma unique_repeat_users:
  "unique_reminders w \<Longrightarrow> unique_reminders (snd (repeat_users us w))"
proof (induction us arbitrary: w)
  case Nil
  then show ?case by simp
next
  case (Cons u us)
  have c: "unique_reminders (consume w)" using Cons.prems by (simp add: unique_reminders_def)
  obtain e w2 where rr: "repeat_rows u (active_reminder_rows u (consume w)) (consume w) = (e, w2)"
    by (cases "repeat_rows u (active_reminder_rows u (consume w)) (consume w)") auto
  have w2: "unique_reminders w2"
    using unique_repeat_rows[OF c, of u "active_reminder_rows u (consume w)"] by (simp add: rr)
  show ?case
    using Cons.IH[OF Cons.prems] Cons.IH[OF w2] c w2
    by (simp add: get_active_reminders_def Let_def rr split: option.splits)
qed

lemma callback_taken_reminders:
  "active_reminders (snd (callback_taken u d w)) = active_reminders w \<or>
   (\<exists>v. snd (callback_taken u d w) = snd (log_vitamin_intake v u ''taken'' w))"
  by (auto simp add: callback_taken_def split: sum.splits)

lemma callback_delete_reminders:
  "active_reminders (snd (callback_delete u d w)) = active_reminders w"
  by (simp add: callback_delete_def delete_vitamin_def Let_def split: sum.splits)

lemma schedule_postponed_reminders:
  "active_reminders (snd (schedule_postponed u n v w)) = active_reminders w"
  by (simp add: schedule_postponed_def get_user_vitamins_def Let_def split: option.splits)

lemma callback_postpone_reminders:
  "active_reminders (snd (callback_postpone u d w)) = active_reminders w"
  by (simp add: callback_postpone_def Let_def schedule_postponed_reminders split: sum.splits)

lemma callback_toggle_reminders:
  "active_reminders (snd (callback_toggle u w)) = active_reminders w"
  by (simp add: callback_toggle_def Let_def)

lemma handle_callback_reminders:
  "active_reminders (snd (handle_callback u d w)) = active_reminders w \<or>
   (\<exists>v. snd (handle_callback u d w) = snd (log_vitamin_intake v u ''taken'' w))"
  using callback_taken_reminders[of u d w]
  by (simp add: handle_callback_def callback_delete_reminders callback_postpone_reminders
        callback_toggle_reminders)

lemma unique_handle_callback:
  "unique_reminders w \<Longrightarrow> unique_reminders (snd (handle_callback u d w))"
  using handle_callback_reminders[of u d w] unique_log_vitamin_intake[of w _ u "''taken''"]
  by (auto simp add: unique_reminders_def)

lemma reachable_unique: "reachable w \<Longrightarrow> unique_reminders w"
proof (induction rule: reachable.induct)
  case (start t fs)
  then show ?case by (simp add: unique_reminders_def init_world_def)
next
  case (environment w t fs)
  then show ?case by (simp add: unique_reminders_def)
next
  case (restart w)
  then show ?case by (simp add: unique_reminders_def)
next
  case (op_get_user_vitamins w u)
  then show ?case by (simp add: unique_reminders_def get_user_vitamins_def Let_def)
next
  case (op_get_active_reminders w u)
  then show ?case by (simp add: unique_reminders_def get_active_reminders_def Let_def)
next
  case (evaluator w)
  then show ?case by (simp add: send_vitamin_reminder_def unique_remind_users)
next
  case (escalation w)
  then show ?case by (simp add: send_repeat_reminders_def unique_repeat_users)
next
  case (statistics w u)
  then show ?case by (simp add: unique_reminders_def show_statistics_def Let_def)
next
  case (postponed w j)
  then show ?case by (simp add: unique_reminders_def send_postponed_reminder_def)
qed (simp_all add: unique_add_vitamin unique_log_vitamin_intake unique_add_active_reminder
       unique_update_reminder_attempt unique_delete_vitamin unique_handle_callback)

text \<open>
  C3. In every reachable world the reminder table has at most one record per
  (item, owner, date), and it stays so after any number of further Evaluator passes at the
  same clock reading.
\<close>

theorem one_reminder_per_item_owner_date:
  "reachable w \<Longrightarrow>
   distinct (map rem_key (active_reminders (((\<lambda>w. snd (send_vitamin_reminder w)) ^^ n) w)))"
proof -
  assume "reachable w"
  then have "reachable (((\<lambda>w. snd (send_vitamin_reminder w)) ^^ n) w)"
    by (induction n) (simp_all add: reachable.evaluator)
  then show ?thesis using reachable_unique by (simp add: unique_reminders_def)
qed

text \<open>
  The theorem of C3 at \<open>ex_world\<close> and two Evaluator passes in the same minute.
\<close>

theorem one_reminder_per_item_owner_date_witness:
  "reachable ex_world \<and>
   distinct (map rem_key (active_reminders
     (snd (send_vitamin_reminder (snd (send_vitamin_reminder ex_world))))))"
proof -
  have r: "reachable ex_world"
    unfolding ex_world_def by (intro reachable.op_add_vitamin reachable.start)
  from one_reminder_per_item_owner_date[OF r, of "Suc (Suc 0)"] r show ?thesis by simp
qed

section \<open>The Evaluator\<close>

lemma remind_rows_frame:
  "vitamins (remind_rows c u rows w) = vitamins w \<and>
   clock (remind_rows c u rows w) = clock w \<and>
   (faults w = [] \<longrightarrow> faults (remind_rows c u rows w) = [])"
proof (induction rows arbitrary: w)
  case Nil
  then show ?case by simp
next
  case (Cons row rows)
  obtain i n t a where row: "row = (i, n, t, a)" by (cases row) auto
  show ?case using Cons.IH by (simp add: row Let_def)
qed

lemma user_vitamin_rows_remind_rows:
  "user_vitamin_rows u' (remind_rows c u rows w) = user_vitamin_rows u' w"
  by (rule user_vitamin_rows_cong) (simp add: remind_rows_frame)

lemma remind_rows_outbox:
  "outbox (remind_rows c u rows w) = outbox w @ map (reminder_message u) (due_rows c rows)"
proof (induction rows arbitrary: w)
  case Nil
  then show ?case by (simp add: due_rows_def)
next
  case (Cons row rows)
  obtain i n t a where row: "row = (i, n, t, a)" by (cases row) auto
  show ?case using Cons.IH by (simp add: row Let_def due_rows_def reminder_message_def)
qed

lemma add_active_reminder_grows:
  "set (active_reminders w) \<subseteq> set (active_reminders (snd (add_active_reminder i u w)))"
  by (auto simp add: add_active_reminder_result)

lemma remind_rows_grows:
  "set (active_reminders w) \<subseteq> set (active_reminders (remind_rows c u rows w))"
proof (induction rows arbitrary: w)
  case Nil
  then show ?case by simp
next
  case (Cons row rows)
  obtain i n t a where row: "row = (i, n, t, a)" by (cases row) auto
  show ?case
  proof (cases "t = c")
    case True
    let ?w2 = "send_message u (ReminderText n c) (reminder_keyboard i)
                 (snd (add_active_reminder i u w))"
    have "set (active_reminders w) \<subseteq> set (active_reminders ?w2)"
      using add_active_reminder_grows[of w i u] by simp
    also have "\<dots> \<subseteq> set (active_reminders (remind_rows c u rows ?w2))"
      by (rule Cons.IH)
    finally show ?thesis by (simp add: row True Let_def)
  next
    case False
    then show ?thesis using Cons.IH by (simp add: row)
  qed
qed

lemma add_active_reminder_exists:
  "\<not> next_fault w \<Longrightarrow>
   \<exists>r\<in>set (active_reminders (snd (add_active_reminder i u w))).
      reminder_today i u (date_of (clock w)) r"
  by (auto simp add: add_active_reminder_result reminder_today_def)

lemma remind_rows_raised:
  "faults w = [] \<Longrightarrow> (i, n, c, a) \<in> set rows \<Longrightarrow>
   \<exists>r\<in>set (active_reminders (remind_rows c u rows w)). reminder_today i u (date_of (clock w)) r"
proof (induction rows arbitrary: w)
  case Nil
  then show ?case by simp
next
  case (Cons row rows)
  obtain i' n' t' a' where row: "row = (i', n', t', a')" by (cases row) auto
  show ?case
  proof (cases "t' = c")
    case True
    let ?w1 = "snd (add_active_reminder i' u w)"
    let ?w2 = "send_message u (ReminderText n' c) (reminder_keyboard i') ?w1"
    have f2: "faults ?w2 = []" using Cons.prems(1) by simp
    have c2: "clock ?w2 = clock w" by simp
    have step: "remind_rows c u (row # rows) w = remind_rows c u rows ?w2"
      by (simp add: row True Let_def)
    show ?thesis
    proof (cases "(i, n, c, a) \<in> set rows")
      case True
      from Cons.IH[OF f2 True] show ?thesis unfolding step by (simp add: c2)
    next
      case False
      with Cons.prems(2) have eq: "i' = i" by (simp add: row)
      obtain r where r: "r \<in> set (active_reminders ?w1)" "reminder_today i u (date_of (clock w)) r"
        using add_active_reminder_exists[OF no_faults[OF Cons.prems(1)], of i u] eq by blast
      then have "r \<in> set (active_reminders ?w2)" by simp
      then have "r \<in> set (active_reminders (remind_rows c u rows ?w2))"
        using remind_rows_grows by blast
      with r(2) show ?thesis unfolding step by blast
    qed
  next
    case False
    with Cons.prems(2) have "(i, n, c, a) \<in> set rows" by (auto simp add: row)
    from Cons.IH[OF Cons.prems(1) this] show ?thesis using False by (simp add: row)
  qed
qed

lemma remind_users_frame:
  "vitamins (snd (remind_users c us w)) = vitamins w \<and>
   clock (snd (remind_users c us w)) = clock w"
proof (induction us arbitrary: w)
  case Nil
  then show ?case by simp
next
  case (Cons u us)
  show ?case using Cons.IH
    by (simp add: get_user_vitamins_def Let_def remind_rows_frame)
qed

lemma remind_users_grows:
  "set (active_reminders w) \<subseteq> set (active_reminders (snd (remind_users c us w)))"
proof (induction us arbitrary: w)
  case Nil
  then show ?case by simp
next
  case (Cons u us)
  show ?case
  proof (cases "next_fault w")
    case True
    then show ?thesis by (simp add: get_user_vitamins_def Let_def)
  next
    case False
    let ?w2 = "remind_rows c u (user_vitamin_rows u (consume w)) (consume w)"
    have "set (active_reminders w) \<subseteq> set (active_reminders ?w2)"
      using remind_rows_grows[of "consume w"] by simp
    also have "\<dots> \<subseteq> set (active_reminders (snd (remind_users c us ?w2)))"
      by (rule Cons.IH)
    finally show ?thesis using False by (simp add: get_user_vitamins_def Let_def)
  qed
qed

lemma remind_users_outbox:
  "faults w = [] \<Longrightarrow>
   fst (remind_users c us w) = None \<and>
   outbox (snd (remind_users c us w)) =
     outbox w @ concat (map (\<lambda>u. map (reminder_message u) (due_rows c (user_vitamin_rows u w))) us)"
proof (induction us arbitrary: w)
  case Nil
  then show ?case by simp
next
  case (Cons u us)
  let ?w1 = "consume w"
  let ?w2 = "remind_rows c u (user_vitamin_rows u ?w1) ?w1"
  have f1: "faults ?w1 = []" using Cons.prems by simp
  have f2: "faults ?w2 = []" using remind_rows_frame[of c u _ ?w1] f1 by blast
  have v2: "vitamins ?w2 = vitamins w" using remind_rows_frame[of c u _ ?w1] by simp
  have rows1: "user_vitamin_rows u ?w1 = user_vitamin_rows u w"
    by (rule user_vitamin_rows_cong) simp
  have rows2: "user_vitamin_rows u' ?w2 = user_vitamin_rows u' w" for u'
    by (rule user_vitamin_rows_cong) (rule v2)
  have step: "remind_users c (u # us) w = remind_users c us ?w2"
    using no_faults[OF Cons.prems] by (simp add: get_user_vitamins_def Let_def)
  show ?case
    unfolding step using Cons.IH[OF f2]
    by (simp add: user_vitamin_rows_remind_rows user_vitamin_rows_consume remind_rows_outbox)
qed

lemma remind_users_raised:
  "faults w = [] \<Longrightarrow> u \<in> set us \<Longrightarrow> (i, n, c, a) \<in> set (user_vitamin_rows u w) \<Longrightarrow>
   \<exists>r\<in>set (active_reminders (snd (remind_users c us w))).
      reminder_today i u (date_of (clock w)) r"
proof (induction us arbitrary: w)
  case Nil
  then show ?case by simp
next
  case (Cons u' us)
  let ?w1 = "consume w"
  let ?w2 = "remind_rows c u' (user_vitamin_rows u' ?w1) ?w1"
  have f1: "faults ?w1 = []" using Cons.prems(1) by simp
  have f2: "faults ?w2 = []" using remind_rows_frame[of c u' _ ?w1] f1 by blast
  have v2: "vitamins ?w2 = vitamins w" using remind_rows_frame[of c u' _ ?w1] by simp
  have c2: "clock ?w2 = clock w" using remind_rows_frame[of c u' _ ?w1] by simp
  have rows1: "user_vitamin_rows u' ?w1 = user_vitamin_rows u' w"
    by (rule user_vitamin_rows_cong) simp
  have rows2: "user_vitamin_rows u ?w2 = user_vitamin_rows u w"
    by (rule user_vitamin_rows_cong) (rule v2)
  have step: "remind_users c (u' # us) w = remind_users c us ?w2"
    using no_faults[OF Cons.prems(1)] by (simp add: get_user_vitamins_def Let_def)
  show ?case
  proof (cases "u \<in> set us")
    case True
    have "(i, n, c, a) \<in> set (user_vitamin_rows u ?w2)" using Cons.prems(3) by (simp add: rows2)
    from Cons.IH[OF f2 True this] show ?thesis unfolding step by (simp add: c2)
  next
    case False
    with Cons.prems(2) have eq: "u' = u" by simp
    have "(i, n, c, a) \<in> set (user_vitamin_rows u' ?w1)"
      using Cons.prems(3) by (simp add: user_vitamin_rows_consume eq)
    from remind_rows_raised[OF f1 this, of u']
    obtain r where r: "r \<in> set (active_reminders ?w2)" "reminder_today i u (date_of (clock w)) r"
      by (auto simp add: eq)
    then have "r \<in> set (active_reminders (snd (remind_users c us ?w2)))"
      using remind_users_grows by blast
    with r(2) show ?thesis unfolding step by blast
  qed
qed

text \<open>
  C1, as the code has it. On every Evaluator pass without a storage fault, one
  notification is sent for each active item of each allowed user whose \<open>reminder_time\<close>
  string equals the current \<open>%H:%M\<close> string: the messages appended to the outbox are
  \<open>due_notifications\<close>, which does not look at the reminder table, so the notification is
  sent whether \<open>add_active_reminder\<close> created the record or found it. After the pass each
  such item has a record for today, and the pass keeps the records unique per
  (item, owner, date).
\<close>

theorem evaluator_notifies_on_every_pass:
  assumes "faults w = []"
  shows "fst (send_vitamin_reminder w) = None \<and>
    outbox (snd (send_vitamin_reminder w)) = outbox w @ due_notifications w \<and>
    (\<forall>u\<in>set ALLOWED_USERS. \<forall>row\<in>set (due_rows (strftime_HM (clock w)) (user_vitamin_rows u w)).
        \<exists>r\<in>set (active_reminders (snd (send_vitamin_reminder w))).
          reminder_today (fst row) u (date_of (clock w)) r) \<and>
    (distinct (map rem_key (active_reminders w)) \<longrightarrow>
       distinct (map rem_key (active_reminders (snd (send_vitamin_reminder w)))))"
proof -
  have 1: "fst (send_vitamin_reminder w) = None"
    and 2: "outbox (snd (send_vitamin_reminder w)) = outbox w @ due_notifications w"
    using remind_users_outbox[OF assms, of "strftime_HM (clock w)" ALLOWED_USERS]
    by (simp_all add: send_vitamin_reminder_def due_notifications_def)
  have 3: "\<exists>r\<in>set (active_reminders (snd (send_vitamin_reminder w))).
          reminder_today (fst row) u (date_of (clock w)) r"
    if u: "u \<in> set ALLOWED_USERS"
      and row: "row \<in> set (due_rows (strftime_HM (clock w)) (user_vitamin_rows u w))" for u row
  proof -
    obtain i n t a where r: "row = (i, n, t, a)" by (cases row) auto
    from row have "t = strftime_HM (clock w)" and "(i, n, t, a) \<in> set (user_vitamin_rows u w)"
      by (auto simp add: due_rows_def r)
    then have "(i, n, strftime_HM (clock w), a) \<in> set (user_vitamin_rows u w)" by blast
    from remind_users_raised[OF assms u this] show ?thesis
      by (simp add: send_vitamin_reminder_def r)
  qed
  have 4: "distinct (map rem_key (active_reminders w)) \<longrightarrow>
       distinct (map rem_key (active_reminders (snd (send_vitamin_reminder w))))"
    using unique_remind_users[of w "strftime_HM (clock w)" ALLOWED_USERS]
    by (simp add: send_vitamin_reminder_def unique_reminders_def)
  from 1 2 3 4 show ?thesis by blast
qed

text \<open>
  C1 as stated fails: in \<open>ex_raised\<close> the record of item 1 for today already
  exists; a second pass in the same minute creates no record and still sends the
  notification.
\<close>

theorem evaluator_second_pass_notifies_again:
  "find (reminder_today 1 123456789 (date_of (clock ex_raised))) (active_reminders ex_raised) \<noteq> None \<and>
   active_reminders (snd (send_vitamin_reminder ex_raised)) = active_reminders ex_raised \<and>
   outbox (snd (send_vitamin_reminder ex_raised)) =
     outbox ex_raised @ [\<lparr>chat_id = 123456789, msg_text = ReminderText ''D'' ''09:00'',
                          reply_markup = reminder_keyboard 1\<rparr>]"
  by (simp add: ex_raised_second_pass) (simp add: ex_raised_eq reminder_today_def date_of_def ex_0900_def)

text \<open>
  The theorem of C1 at \<open>ex_raised\<close>.
\<close>

theorem evaluator_notifies_on_every_pass_witness:
  "faults ex_raised = [] \<and>
   outbox (snd (send_vitamin_reminder ex_raised)) = outbox ex_raised @ due_notifications ex_raised \<and>
   due_notifications ex_raised = [reminder_message 123456789 (1, ''D'', ''09:00'', True)] \<and>
   distinct (map rem_key (active_reminders (snd (send_vitamin_reminder ex_raised))))"
proof -
  have h: "faults ex_raised = []" by (simp add: ex_raised_eq)
  have d: "distinct (map rem_key (active_reminders ex_raised))" by (simp add: ex_raised_eq)
  have n: "due_notifications ex_raised = [reminder_message 123456789 (1, ''D'', ''09:00'', True)]"
    by (simp add: due_notifications_def ALLOWED_USERS_def due_rows_def user_vitamin_rows_def
          ex_raised_eq strftime_0900)
  from evaluator_notifies_on_every_pass[OF h] h d n show ?thesis by blast
qed

section \<open>The Escalation Engine\<close>

lemma repeat_rows_datetime_objects:
  "\<forall>row\<in>set rows. \<exists>dt. snd (snd (snd (snd row))) = DatetimeObj dt \<Longrightarrow>
   repeat_rows u rows w = (if rows = [] then None else Some TypeError, w)"
proof (cases rows)
  case Nil
  then show ?thesis by simp
next
  case (Cons row rest)
  assume a: "\<forall>row\<in>set rows. \<exists>dt. snd (snd (snd (snd row))) = DatetimeObj dt"
  obtain i v n a l where row: "row = (i, v, n, a, l)" by (cases row) auto
  from a Cons row obtain dt where "l = DatetimeObj dt" by auto
  then show ?thesis by (simp add: Cons row)
qed

lemma active_reminder_rows_objects:
  "\<forall>row\<in>set (active_reminder_rows u w). \<exists>dt. snd (snd (snd (snd row))) = DatetimeObj dt"
  by (auto simp add: active_reminder_rows_def)

lemma repeat_users_frame:
  "active_reminders (snd (repeat_users us w)) = active_reminders w \<and>
   outbox (snd (repeat_users us w)) = outbox w"
proof (induction us arbitrary: w)
  case Nil
  then show ?case by simp
next
  case (Cons u us)
  have rr: "repeat_rows u (active_reminder_rows u (consume w)) (consume w) =
        (if active_reminder_rows u (consume w) = [] then None else Some TypeError, consume w)"
    by (rule repeat_rows_datetime_objects) (rule active_reminder_rows_objects)
  show ?case
    using Cons.IH[of w] Cons.IH[of "consume w"]
    by (simp add: get_active_reminders_def Let_def rr)
qed

lemma repeat_rows_at_cap:
  "MAX_REMINDER_ATTEMPTS \<le> a \<Longrightarrow>
   repeat_rows u ((i, v, n, a, l) # rows) w =
     (case fromisoformat l of Inl e \<Rightarrow> (Some e, w) | Inr p \<Rightarrow> repeat_rows u rows w)"
  by (simp add: Let_def split: sum.splits)

text \<open>
  C5. A record that is at the cap, or whose last notification is more recent than the
  repeat interval, is at the same place and unchanged in the table after an Escalation
  pass. In the loop itself a row whose attempt count is at the cap is never updated nor
  notified.
\<close>

theorem escalation_spares_ineligible_records:
  assumes "k < length (active_reminders w)"
    and "MAX_REMINDER_ATTEMPTS \<le> rem_attempts (active_reminders w ! k) \<or>
         instant (clock w) - instant (rem_last_reminder (active_reminders w ! k))
           < timedelta_seconds REPEAT_REMINDER_INTERVAL"
  shows "k < length (active_reminders (snd (send_repeat_reminders w))) \<and>
         active_reminders (snd (send_repeat_reminders w)) ! k = active_reminders w ! k \<and>
         (MAX_REMINDER_ATTEMPTS \<le> rem_attempts (active_reminders w ! k) \<longrightarrow>
            (\<forall>u i v n l rows.
               repeat_rows u ((i, v, n, rem_attempts (active_reminders w ! k), l) # rows) w =
                 (case fromisoformat l of Inl e \<Rightarrow> (Some e, w)
                  | Inr p \<Rightarrow> repeat_rows u rows w)))"
  using assms(1) repeat_rows_at_cap
  by (simp add: send_repeat_reminders_def repeat_users_frame)

text \<open>
  The theorem of C5 at \<open>ex_raised\<close>, whose record was notified in the same minute.
\<close>

theorem escalation_spares_ineligible_records_witness:
  "0 < length (active_reminders ex_raised) \<and>
   instant (clock ex_raised) - instant (rem_last_reminder (active_reminders ex_raised ! 0))
     < timedelta_seconds REPEAT_REMINDER_INTERVAL \<and>
   active_reminders (snd (send_repeat_reminders ex_raised)) ! 0 = active_reminders ex_raised ! 0"
proof -
  have k: "0 < length (active_reminders ex_raised)" by (simp add: ex_raised_eq)
  have t: "instant (clock ex_raised) - instant (rem_last_reminder (active_reminders ex_raised ! 0))
     < timedelta_seconds REPEAT_REMINDER_INTERVAL"
    by (simp add: ex_raised_eq timedelta_seconds_def REPEAT_REMINDER_INTERVAL_def)
  from escalation_spares_ineligible_records[OF k disjI2[OF t]] k t show ?thesis by blast
qed

text \<open>
  C6 fails on the code. At 09:30 the record of \<open>ex_raised\<close> has zero attempts and was
  last notified 1800 seconds ago, so it is eligible. The row that \<open>get_active_reminders\<close>
  returns holds a \<open>datetime\<close> object, \<open>datetime.fromisoformat\<close> raises TypeError on it
  outside any \<open>try\<close>, and the pass ends there: the attempt count stays 0 and nothing is
  sent.
\<close>

theorem escalation_pass_raises_type_error:
  "rem_attempts (hd (active_reminders (ex_raised\<lparr>clock := ex_0930\<rparr>))) < MAX_REMINDER_ATTEMPTS \<and>
   instant ex_0930 - instant (rem_last_reminder (hd (active_reminders (ex_raised\<lparr>clock := ex_0930\<rparr>))))
     \<ge> timedelta_seconds REPEAT_REMINDER_INTERVAL \<and>
   fst (send_repeat_reminders (ex_raised\<lparr>clock := ex_0930\<rparr>)) = Some TypeError \<and>
   map rem_attempts (active_reminders (snd (send_repeat_reminders (ex_raised\<lparr>clock := ex_0930\<rparr>)))) = [0] \<and>
   outbox (snd (send_repeat_reminders (ex_raised\<lparr>clock := ex_0930\<rparr>))) = outbox ex_raised"
  by (simp add: ex_raised_eq send_repeat_reminders_def ALLOWED_USERS_def
        ENABLE_REPEAT_REMINDERS_def get_active_reminders_def active_reminder_rows_def
        next_fault_def consume_def Let_def MAX_REMINDER_ATTEMPTS_def REPEAT_REMINDER_INTERVAL_def
        timedelta_seconds_def instant_def ex_0900_def ex_0930_def date_of_def)

section \<open>Postponement\<close>

lemma postpone_not_taken:
  "startswith d ''postpone_'' \<Longrightarrow> \<not> startswith d ''taken_'' \<and> \<not> startswith d ''delete_''"
  by (cases d) (auto simp add: startswith_def)

lemma two_parts:
  "map f (take 2 (drop 1 xs)) = [a, b] \<Longrightarrow>
   py_index xs 1 = Inr (xs ! 1) \<and> f (xs ! 1) = a \<and> py_index xs 2 = Inr (xs ! 2) \<and> f (xs ! 2) = b"
proof -
  assume a: "map f (take 2 (drop 1 xs)) = [a, b]"
  then obtain x y z rest where xs: "xs = x # y # z # rest"
    by (cases xs; cases "tl xs"; cases "tl (tl xs)") (auto simp add: numeral_2_eq_2)
  with a show ?thesis by (simp add: py_index_def numeral_2_eq_2)
qed

lemma schedule_postponed_jobs:
  "\<not> next_fault w \<Longrightarrow>
   jobs (snd (schedule_postponed u n v w)) =
     (case find (\<lambda>row. fst row = v) (user_vitamin_rows u w) of
        None \<Rightarrow> jobs w
      | Some row \<Rightarrow> jobs w @
          [\<lparr>job_when = n * 60,
            job_data = \<lparr>jd_user_id = u, jd_vitamin_id = v, jd_vitamin_name = fst (snd row),
                        jd_reminder_time = fst (snd (snd row))\<rparr>\<rparr>])"
  by (simp add: schedule_postponed_def get_user_vitamins_def Let_def user_vitamin_rows_consume
        split: option.splits)

lemma found_row_id: "find (\<lambda>row. fst row = v) rows = Some row \<Longrightarrow> fst row = v"
  by (induction rows) (auto split: if_splits)

lemma postponed_message:
  "send_postponed_reminder
     \<lparr>jd_user_id = u, jd_vitamin_id = fst row, jd_vitamin_name = fst (snd row),
      jd_reminder_time = fst (snd (snd row))\<rparr> w2 =
   w2\<lparr>outbox := outbox w2 @ [reminder_message u row]\<rparr>"
  by (cases row) (simp add: send_postponed_reminder_def send_message_def reminder_message_def)

lemma parse_postpone_5_1:
  "map py_int (take 2 (drop 1 (split_on CHR ''_'' ''postpone_5_1''))) = [Inr 5, Inr 1]"
  by code_simp

lemma parse_postpone_5_2:
  "map py_int (take 2 (drop 1 (split_on CHR ''_'' ''postpone_5_2''))) = [Inr 5, Inr 2]"
  by code_simp

lemma schedule_postponed_fault:
  "next_fault w \<Longrightarrow> schedule_postponed u n v w = (Inl StorageError, consume w)"
  by (simp add: schedule_postponed_def get_user_vitamins_def Let_def)

lemma schedule_postponed_reply:
  "\<not> next_fault w \<Longrightarrow> find (\<lambda>row. fst row = v) (user_vitamin_rows u w) = None \<Longrightarrow>
   fst (schedule_postponed u n v w) = Inr (Some NotFoundText)"
  by (simp add: schedule_postponed_def get_user_vitamins_def Let_def user_vitamin_rows_consume)

text \<open>
  C7, as the code has it. For an allowed user and callback data
  \<open>postpone_<delay>_<vitamin_id>\<close> the reminder table is unchanged. When the read of the
  user's vitamins raises, the exception leaves the handler and no job is requested. When
  the vitamin is not among the user's active ones, no job is requested and the reply is
  the not-found text. When it is, exactly one job is requested, \<open>delay * 60\<close> seconds
  later, and running it sends the reminder message of that vitamin (the message the
  Evaluator sends) and changes nothing else.
\<close>

theorem postpone_schedules_one_job_if_listed:
  assumes "check_user_access user_id"
    and "startswith data ''postpone_''"
    and "map py_int (take 2 (drop 1 (split_on CHR ''_'' data))) = [Inr delay, Inr vitamin_id]"
  shows "active_reminders (snd (handle_callback user_id data w)) = active_reminders w \<and>
    (if next_fault w
     then fst (handle_callback user_id data w) = Inl StorageError \<and>
          jobs (snd (handle_callback user_id data w)) = jobs w
     else case find (\<lambda>row. fst row = vitamin_id) (user_vitamin_rows user_id w) of
       None \<Rightarrow> fst (handle_callback user_id data w) = Inr (Some NotFoundText) \<and>
               jobs (snd (handle_callback user_id data w)) = jobs w
     | Some row \<Rightarrow>
         (\<exists>j. jobs (snd (handle_callback user_id data w)) = jobs w @ [j] \<and>
              job_when j = delay * 60 \<and>
              (\<forall>w2. send_postponed_reminder (job_data j) w2 =
                     w2\<lparr>outbox := outbox w2 @ [reminder_message user_id row]\<rparr>)))"
proof -
  from two_parts[OF assms(3)]
  have hc: "handle_callback user_id data w = schedule_postponed user_id delay vitamin_id w"
    using assms(1) postpone_not_taken[OF assms(2)] assms(2)
    by (simp add: handle_callback_def callback_postpone_def Let_def)
  have 1: "active_reminders (snd (handle_callback user_id data w)) = active_reminders w"
    by (simp add: hc schedule_postponed_reminders)
  show ?thesis
  proof (cases "next_fault w")
    case True
    with 1 show ?thesis by (simp add: hc schedule_postponed_fault)
  next
    case False
    have 2: "(case find (\<lambda>row. fst row = vitamin_id) (user_vitamin_rows user_id w) of
       None \<Rightarrow> fst (handle_callback user_id data w) = Inr (Some NotFoundText) \<and>
               jobs (snd (handle_callback user_id data w)) = jobs w
     | Some row \<Rightarrow>
         (\<exists>j. jobs (snd (handle_callback user_id data w)) = jobs w @ [j] \<and>
              job_when j = delay * 60 \<and>
              (\<forall>w2. send_postponed_reminder (job_data j) w2 =
                     w2\<lparr>outbox := outbox w2 @ [reminder_message user_id row]\<rparr>)))"
    proof (cases "find (\<lambda>row. fst row = vitamin_id) (user_vitamin_rows user_id w)")
      case None
      then show ?thesis
        by (simp add: hc schedule_postponed_jobs[OF False] schedule_postponed_reply[OF False])
    next
      case (Some row)
      have v: "vitamin_id = fst row" using found_row_id[OF Some] by simp
      show ?thesis
        by (simp add: Some hc schedule_postponed_jobs[OF False])
           (simp add: v postponed_message)
    qed
    from 1 2 False show ?thesis by simp
  qed
qed

text \<open>
  C7 as stated fails: postponing a vitamin that is not among the user's active ones
  schedules nothing.
\<close>

theorem postpone_unlisted_schedules_nothing:
  "check_user_access 123456789 \<and> startswith ''postpone_5_2'' ''postpone_'' \<and>
   handle_callback 123456789 ''postpone_5_2'' ex_world = (Inr (Some NotFoundText), ex_world) \<and>
   jobs ex_world = []"
proof -
  have a: "startswith ''postpone_5_2'' ''postpone_''" by (simp add: startswith_def)
  have hc: "handle_callback 123456789 ''postpone_5_2'' ex_world =
            schedule_postponed 123456789 5 2 ex_world"
    using two_parts[OF parse_postpone_5_2] ex_allowed postpone_not_taken[OF a] a
    by (simp add: handle_callback_def callback_postpone_def Let_def)
  have "schedule_postponed 123456789 5 2 ex_world = (Inr (Some NotFoundText), ex_world)"
    by (simp add: schedule_postponed_def get_user_vitamins_def Let_def user_vitamin_rows_consume
          ex_user_rows ex_world_no_fault)
       (simp add: ex_world_eq consume_def)
  with a hc ex_allowed show ?thesis by (simp add: ex_world_eq)
qed

text \<open>
  The theorem of C7 at \<open>ex_world\<close> and the data \<open>postpone_5_1\<close>.
\<close>

theorem postpone_schedules_one_job_if_listed_witness:
  "check_user_access 123456789 \<and> startswith ''postpone_5_1'' ''postpone_'' \<and>
   map py_int (take 2 (drop 1 (split_on CHR ''_'' ''postpone_5_1''))) = [Inr 5, Inr 1] \<and>
   \<not> next_fault ex_world \<and>
   active_reminders (snd (handle_callback 123456789 ''postpone_5_1'' ex_world)) =
     active_reminders ex_world \<and>
   (\<exists>j. jobs (snd (handle_callback 123456789 ''postpone_5_1'' ex_world)) = jobs ex_world @ [j] \<and>
        job_when j = 300 \<and>
        (\<forall>w2. send_postponed_reminder (job_data j) w2 =
               w2\<lparr>outbox := outbox w2 @ [reminder_message 123456789 (1, ''D'', ''09:00'', True)]\<rparr>)) \<and>
   fst (handle_callback 123456789 ''postpone_5_2'' ex_world) = Inr (Some NotFoundText) \<and>
   fst (handle_callback 123456789 ''postpone_5_1'' (ex_world\<lparr>faults := [True]\<rparr>)) =
     Inl StorageError \<and>
   jobs (snd (handle_callback 123456789 ''postpone_5_1'' (ex_world\<lparr>faults := [True]\<rparr>))) = []"
proof -
  have a: "startswith ''postpone_5_1'' ''postpone_''" by (simp add: startswith_def)
  have a2: "startswith ''postpone_5_2'' ''postpone_''" by (simp add: startswith_def)
  have f: "find (\<lambda>row. fst row = 1) (user_vitamin_rows 123456789 ex_world)
           = Some (1, ''D'', ''09:00'', True)"
    by (simp add: ex_user_rows)
  have f2: "find (\<lambda>row. fst row = 2) (user_vitamin_rows 123456789 ex_world) = None"
    by (simp add: ex_user_rows)
  have ft: "next_fault (ex_world\<lparr>faults := [True]\<rparr>)" "jobs (ex_world\<lparr>faults := [True]\<rparr>) = []"
    by (simp_all add: next_fault_def ex_world_eq)
  from postpone_schedules_one_job_if_listed[OF ex_allowed a parse_postpone_5_1, of ex_world]
    postpone_schedules_one_job_if_listed[OF ex_allowed a2 parse_postpone_5_2, of ex_world]
    postpone_schedules_one_job_if_listed[OF ex_allowed a parse_postpone_5_1,
      of "ex_world\<lparr>faults := [True]\<rparr>"]
  show ?thesis using ex_allowed a parse_postpone_5_1 ex_world_no_fault
    by (simp add: f f2 ft)
qed

end
